theory Spec2Isabelle
  imports Main
begin

section \<open>Data model (src/types.ts)\<close>

text \<open>
  The enums of \<^verbatim>\<open>types.ts\<close> are datatypes, the interfaces are records. A field
  that TypeScript marks optional (\<^verbatim>\<open>notes?\<close>, \<^verbatim>\<open>discount?\<close>, \<^verbatim>\<open>staffIds?\<close>) or
  nullable (\<^verbatim>\<open>staffId: string | null\<close>) is an \<open>option\<close>. The field \<^verbatim>\<open>code\<close> of a
  booking is an \<open>option\<close> too: \<^verbatim>\<open>handleSubmit\<close> builds the updated booking without it
  and casts the object to \<^verbatim>\<open>Booking\<close>. Field names that several interfaces share
  carry the initial of their interface, and so does \<^verbatim>\<open>notes\<close>, a keyword of
  Isabelle. JavaScript numbers are integers here: minutes and amounts of money in the
  base currency unit.
\<close>

datatype EmployeeStatus = Emp_ACTIVE | ON_LEAVE | RESIGNED

datatype Position = MANAGER | THERAPIST | RECEPTIONIST | SECURITY

record Employee =
  eid :: string
  ecode :: string
  ename :: string
  avatar :: string
  position :: Position
  estatus :: EmployeeStatus
  phone :: string
  email :: string
  bio :: "string option"

datatype ServiceCategory = MASSAGE | SKIN_CARE | BODY_CARE | COMBO | OTHER

datatype ServiceStatus = Svc_ACTIVE | STOPPED

record Service =
  sid :: string
  scode :: string
  sname :: string
  image :: string
  category :: ServiceCategory
  sduration :: int
  price :: int
  staffCount :: int
  sstatus :: ServiceStatus
  description :: string

datatype BookingStatus = PENDING | CONFIRMED | IN_PROGRESS | COMPLETED | CANCELLED

record Booking =
  bid :: string
  code :: "string option"
  customerName :: string
  customerPhone :: string
  serviceId :: string
  serviceName :: string
  staffId :: "string option"
  staffIds :: "string list option"
  staffName :: string
  date :: string
  time :: string
  duration :: int
  status :: BookingStatus
  bnotes :: "string option"
  totalAmount :: int
  discount :: "int option"

section \<open>The booking page (src/pages/BookingPage.tsx)\<close>

text \<open>
  A page with the props of the operations page (embedded further down), which the
  application does not mount. Its slot sequence, its overlap test, its search for the
  next free slot, its check of the selected staff and its quick status change are those
  of the operations page. Its room check differs in the guard on the status (only
  cancelled bookings are left out), and its \<^verbatim>\<open>handleSubmit\<close> has neither the discount
  nor the bypass for an unchanged edit.
\<close>

subsection \<open>Strings and numbers of the time grid\<close>

text \<open>
  A character is a code unit below 256. \<^verbatim>\<open>Number\<close> is modelled on the plain decimal
  numerals, the strings that the time grid and the time picker are made of (the empty
  string reads as 0, as in JavaScript). On every other string the model answers
  \<open>None\<close>, which stands for \<^verbatim>\<open>NaN\<close>: that is what JavaScript answers unless the
  string is a numeral in another notation (a sign, a fraction, an exponent, a radix
  prefix, white space around it), which no slot label is. The arithmetic of the page is
  lifted to \<open>int option\<close> with \<^verbatim>\<open>NaN\<close> propagating, and a comparison with
  \<^verbatim>\<open>NaN\<close> is false.
\<close>

definition isDigit :: "char \<Rightarrow> bool" where
  "isDigit c = (48 \<le> (of_char c :: nat) \<and> (of_char c :: nat) \<le> 57)"

definition digitVal :: "char \<Rightarrow> int" where
  "digitVal c = int (of_char c) - 48"

definition Number :: "string \<Rightarrow> int option" where
  "Number s = (if list_all isDigit s then Some (foldl (\<lambda>n c. 10 * n + digitVal c) 0 s) else None)"

fun split_colon :: "string \<Rightarrow> string list" where
  "split_colon [] = [[]]"
| "split_colon (c # cs) =
     (if c = CHR '':'' then [] # split_colon cs
      else (case split_colon cs of p # ps \<Rightarrow> (c # p) # ps | [] \<Rightarrow> [[c]]))"

definition js_add :: "int option \<Rightarrow> int option \<Rightarrow> int option" where
  "js_add a b = (case (a, b) of (Some x, Some y) \<Rightarrow> Some (x + y) | _ \<Rightarrow> None)"

definition js_mul :: "int option \<Rightarrow> int option \<Rightarrow> int option" where
  "js_mul a b = (case (a, b) of (Some x, Some y) \<Rightarrow> Some (x * y) | _ \<Rightarrow> None)"

definition Math_max :: "int option \<Rightarrow> int option \<Rightarrow> int option" where
  "Math_max a b = (case (a, b) of (Some x, Some y) \<Rightarrow> Some (max x y) | _ \<Rightarrow> None)"

definition Math_min :: "int option \<Rightarrow> int option \<Rightarrow> int option" where
  "Math_min a b = (case (a, b) of (Some x, Some y) \<Rightarrow> Some (min x y) | _ \<Rightarrow> None)"

definition js_less :: "int option \<Rightarrow> int option \<Rightarrow> bool" where
  "js_less a b = (case (a, b) of (Some x, Some y) \<Rightarrow> x < y | _ \<Rightarrow> False)"

text \<open>
  \<^verbatim>\<open>timeToMinutes\<close>: 0 for the empty string; otherwise the string is split at the
  colons, every part goes through \<^verbatim>\<open>Number\<close>, and the first two parts are \<^verbatim>\<open>h\<close>
  and \<^verbatim>\<open>m\<close>. A missing part is \<^verbatim>\<open>undefined\<close>, and the sum is \<^verbatim>\<open>NaN\<close>.
\<close>

definition timeToMinutes :: "string \<Rightarrow> int option" where
  "timeToMinutes t =
     (if t = [] then Some 0
      else (case map Number (split_colon t) of
              h # m # _ \<Rightarrow> js_add (js_mul h (Some 60)) m
            | _ \<Rightarrow> None))"

subsection \<open>The slot sequence\<close>

definition TOTAL_ROOMS :: nat where
  "TOTAL_ROOMS = 5"

record TimeSlot =
  slot_time :: string
  slot_hour :: string
  slot_minute :: string

definition digitChar :: "nat \<Rightarrow> char" where
  "digitChar d = ''0123456789'' ! d"

fun toString :: "nat \<Rightarrow> string" where
  "toString n = (if n < 10 then [digitChar n] else toString (n div 10) @ [digitChar (n mod 10)])"

declare toString.simps [simp del]

definition padStart :: "string \<Rightarrow> nat \<Rightarrow> char \<Rightarrow> string" where
  "padStart s n c = replicate (n - length s) c @ s"

text \<open>
  The two nested loops of \<^verbatim>\<open>generateTimeSlots\<close>; \<open>minuteLoop\<close> is the inner one,
  with its \<^verbatim>\<open>break\<close> after 22:00, and \<open>hourLoop\<close> the outer one.
\<close>

function minuteLoop :: "nat \<Rightarrow> nat \<Rightarrow> TimeSlot list" where
  "minuteLoop h m =
     (if m < 60 then
        (if h = 22 \<and> m > 0 then []
         else (let hourStr = toString h; minStr = padStart (toString m) 2 (CHR ''0'')
               in \<lparr>slot_time = hourStr @ '':'' @ minStr, slot_hour = hourStr, slot_minute = minStr\<rparr>
                  # minuteLoop h (m + 10)))
      else [])"
  by pat_completeness auto
termination
  by (relation "measure (\<lambda>(h, m). 60 - m)") auto

declare minuteLoop.simps [simp del]

function hourLoop :: "nat \<Rightarrow> TimeSlot list" where
  "hourLoop h = (if h \<le> 22 then minuteLoop h 0 @ hourLoop (h + 1) else [])"
  by pat_completeness auto
termination
  by (relation "measure (\<lambda>h. 23 - h)") auto

declare hourLoop.simps [simp del]

definition generateTimeSlots :: "TimeSlot list" where
  "generateTimeSlots = hourLoop 10"

definition TIME_SLOTS :: "TimeSlot list" where
  "TIME_SLOTS = generateTimeSlots"

subsection \<open>Component state\<close>

text \<open>
  \<open>FormData\<close> is the type of \<^verbatim>\<open>INITIAL_FORM_DATA\<close>: the fields of a booking without
  id, code, serviceName, staffName, duration and totalAmount, and the list
  \<^verbatim>\<open>selectedStaffIds\<close>. \<open>PageState\<close> holds the props and the state variables that
  the functions below read.
\<close>

record FormData =
  f_customerName :: string
  f_customerPhone :: string
  f_serviceId :: string
  f_staffId :: "string option"
  f_staffIds :: "string list option"
  selectedStaffIds :: "string list"
  f_date :: string
  f_time :: string
  f_status :: BookingStatus
  f_notes :: "string option"
  f_discount :: "int option"

record PageState =
  bookings :: "Booking list"
  employees :: "Employee list"
  services :: "Service list"
  formData :: FormData
  isEditing :: bool
  currentId :: "string option"
  isModalOpen :: bool

subsection \<open>Room availability\<close>

record Availability =
  isAvailable :: bool
  occupiedCount :: nat

definition overlapsCheck :: "PageState \<Rightarrow> int option \<Rightarrow> int option \<Rightarrow> Booking \<Rightarrow> bool" where
  "overlapsCheck st checkStart checkEnd b =
     (if status b = CANCELLED then False
      else if isEditing st \<and> Some (bid b) = currentId st then False
      else (let bStart = timeToMinutes (time b);
                bEnd = js_add bStart (Some (duration b))
            in js_less (Math_max checkStart bStart) (Math_min checkEnd bEnd)))"

definition getRoomAvailability :: "PageState \<Rightarrow> string \<Rightarrow> int \<Rightarrow> Availability" where
  "getRoomAvailability st checkTime dur =
     (let checkStart = timeToMinutes checkTime;
          checkEnd = js_add checkStart (Some dur);
          dateBookings = filter (\<lambda>b. date b = f_date (formData st)) (bookings st);
          overlappingBookings = filter (overlapsCheck st checkStart checkEnd) dateBookings
      in \<lparr>isAvailable = length overlappingBookings < TOTAL_ROOMS,
          occupiedCount = length overlappingBookings\<rparr>)"

subsection \<open>Room status and the next free slot\<close>

record RoomStatus =
  isFull :: bool
  nextTime :: "string option"

definition selectedService :: "PageState \<Rightarrow> Service option" where
  "selectedService st = find (\<lambda>s. sid s = f_serviceId (formData st)) (services st)"

text \<open>\<^verbatim>\<open>findIndex\<close>, with \<open>None\<close> for the \<^verbatim>\<open>-1\<close> of JavaScript.\<close>

fun findIndex :: "('a \<Rightarrow> bool) \<Rightarrow> 'a list \<Rightarrow> nat option" where
  "findIndex P [] = None"
| "findIndex P (x # xs) = (if P x then Some 0 else map_option Suc (findIndex P xs))"

text \<open>
  The \<^verbatim>\<open>for\<close> loop of \<^verbatim>\<open>roomStatus\<close> over the indices of \<^verbatim>\<open>TIME_SLOTS\<close>; the
  result is the value of \<^verbatim>\<open>nextTime\<close> when the loop ends or breaks.
\<close>

function slotLoop :: "PageState \<Rightarrow> int \<Rightarrow> nat \<Rightarrow> string option" where
  "slotLoop st dur i =
     (if i < length TIME_SLOTS then
        (let slot = TIME_SLOTS ! i;
             check = getRoomAvailability st (slot_time slot) dur
         in if isAvailable check then Some (slot_time slot) else slotLoop st dur (i + 1))
      else None)"
  by pat_completeness auto
termination
  by (relation "measure (\<lambda>(st, dur, i). length TIME_SLOTS - i)") auto

declare slotLoop.simps [simp del]

definition roomStatus :: "PageState \<Rightarrow> RoomStatus" where
  "roomStatus st =
     (case selectedService st of
        None \<Rightarrow> \<lparr>isFull = False, nextTime = None\<rparr>
      | Some svc \<Rightarrow>
          if f_time (formData st) = [] then \<lparr>isFull = False, nextTime = None\<rparr>
          else if isAvailable (getRoomAvailability st (f_time (formData st)) (sduration svc))
          then \<lparr>isFull = False, nextTime = None\<rparr>
          else \<lparr>isFull = True,
                nextTime =
                  (case findIndex (\<lambda>t. slot_time t = f_time (formData st)) TIME_SLOTS of
                     None \<Rightarrow> None
                   | Some startIndex \<Rightarrow> slotLoop st (sduration svc) (startIndex + 1))\<rparr>)"

subsection \<open>Opening the edit form\<close>

definition openEditModal :: "PageState \<Rightarrow> Booking \<Rightarrow> PageState" where
  "openEditModal st booking =
     (let initialSelectedStaffIds =
            (case staffIds booking of
               Some ids \<Rightarrow>
                 if length ids > 0 then ids
                 else (case staffId booking of
                         Some s \<Rightarrow> if s \<noteq> [] then [s] else []
                       | None \<Rightarrow> [])
             | None \<Rightarrow>
                 (case staffId booking of
                    Some s \<Rightarrow> if s \<noteq> [] then [s] else []
                  | None \<Rightarrow> []))
      in st\<lparr>formData :=
              \<lparr>f_customerName = customerName booking,
               f_customerPhone = customerPhone booking,
               f_serviceId = serviceId booking,
               f_staffId = Some (case staffId booking of Some s \<Rightarrow> s | None \<Rightarrow> []),
               f_staffIds = None,
               selectedStaffIds = initialSelectedStaffIds,
               f_date = date booking,
               f_time = time booking,
               f_status = status booking,
               f_notes = Some (case bnotes booking of Some n \<Rightarrow> n | None \<Rightarrow> []),
               f_discount = None\<rparr>,
            currentId := Some (bid booking),
            isEditing := True,
            isModalOpen := True\<rparr>)"

subsection \<open>Submitting the form\<close>

text \<open>
  \<^verbatim>\<open>trim\<close> removes the white space and the line terminators of JavaScript at both
  ends; below 256 these are the code units 9 to 13, 32 and 160.
\<close>

definition isWhiteSpace :: "char \<Rightarrow> bool" where
  "isWhiteSpace c = ((of_char c :: nat) \<in> {9, 10, 11, 12, 13, 32, 160})"

definition trim :: "string \<Rightarrow> string" where
  "trim s = rev (dropWhile isWhiteSpace (rev (dropWhile isWhiteSpace s)))"

fun join :: "string \<Rightarrow> string list \<Rightarrow> string" where
  "join sep [] = []"
| "join sep [x] = x"
| "join sep (x # y # ys) = x @ sep @ join sep (y # ys)"

text \<open>The label for a booking without staff, written without its diacritics.\<close>

definition NO_STAFF_LABEL :: string where
  "NO_STAFF_LABEL = ''Chua chi dinh''"

text \<open>
  What a call of \<^verbatim>\<open>handleSubmit\<close> does: an alert, a return after the operator
  declined to overbook, or a call of one of the two callbacks. \<open>confirmShown\<close> tells
  whether \<^verbatim>\<open>window.confirm\<close> (the soft room-full warning) was shown, and
  \<open>modalOpenAfter\<close> is \<^verbatim>\<open>isModalOpen\<close> after the call.
\<close>

datatype SubmitEffect =
    AlertChooseService
  | OverbookDeclined
  | AlertNotEnoughStaff int
  | OnUpdateBooking Booking
  | OnAddBooking Booking

record SubmitResult =
  confirmShown :: bool
  effect :: SubmitEffect
  modalOpenAfter :: bool

definition validStaffIdsOf :: "FormData \<Rightarrow> string list" where
  "validStaffIdsOf fd = filter (\<lambda>i. i \<noteq> [] \<and> trim i \<noteq> []) (selectedStaffIds fd)"

text \<open>
  The inputs beside the state are the answer of the operator to the warning (read only
  when the warning is shown), and for a new booking the id, the reading of the clock as
  a string, and the code that \<^verbatim>\<open>generateCode\<close> returns.
\<close>

definition handleSubmit :: "PageState \<Rightarrow> bool \<Rightarrow> string \<Rightarrow> string \<Rightarrow> SubmitResult" where
  "handleSubmit st confirmOverbook newId newCode =
     (case find (\<lambda>s. sid s = f_serviceId (formData st)) (services st) of
        None \<Rightarrow> \<lparr>confirmShown = False, effect = AlertChooseService,
                   modalOpenAfter = isModalOpen st\<rparr>
      | Some service \<Rightarrow>
          if isFull (roomStatus st) \<and> \<not> confirmOverbook
          then \<lparr>confirmShown = True, effect = OverbookDeclined, modalOpenAfter = isModalOpen st\<rparr>
          else
            (let validStaffIds = validStaffIdsOf (formData st)
             in if int (length validStaffIds) < staffCount service
                then \<lparr>confirmShown = isFull (roomStatus st),
                      effect = AlertNotEnoughStaff (staffCount service),
                      modalOpenAfter = isModalOpen st\<rparr>
                else
                  (let selectedStaffObjects =
                         List.map_filter (\<lambda>i. find (\<lambda>e. eid e = i) (employees st)) validStaffIds;
                       staffNameString =
                         (if length selectedStaffObjects > 0
                          then join '', '' (map ename selectedStaffObjects)
                          else NO_STAFF_LABEL);
                       primaryStaffId = (case validStaffIds of [] \<Rightarrow> None | i # _ \<Rightarrow> Some i);
                       finalBookingData = (\<lambda>theId theCode.
                         \<lparr>bid = theId,
                          code = theCode,
                          customerName = f_customerName (formData st),
                          customerPhone = f_customerPhone (formData st),
                          serviceId = f_serviceId (formData st),
                          serviceName = sname service,
                          staffId = primaryStaffId,
                          staffIds = Some validStaffIds,
                          staffName = staffNameString,
                          date = f_date (formData st),
                          time = f_time (formData st),
                          duration = sduration service,
                          status = f_status (formData st),
                          bnotes = f_notes (formData st),
                          totalAmount = price service,
                          discount = f_discount (formData st)\<rparr>)
                   in case (if isEditing st then currentId st else None) of
                        Some cid \<Rightarrow>
                          if cid \<noteq> []
                          then \<lparr>confirmShown = isFull (roomStatus st),
                                effect = OnUpdateBooking (finalBookingData cid None),
                                modalOpenAfter = False\<rparr>
                          else \<lparr>confirmShown = isFull (roomStatus st),
                                effect = OnAddBooking (finalBookingData newId (Some newCode)),
                                modalOpenAfter = False\<rparr>
                      | None \<Rightarrow>
                          \<lparr>confirmShown = isFull (roomStatus st),
                           effect = OnAddBooking (finalBookingData newId (Some newCode)),
                           modalOpenAfter = False\<rparr>)))"

definition submittedBooking :: "SubmitResult \<Rightarrow> Booking option" where
  "submittedBooking r =
     (case effect r of OnUpdateBooking b \<Rightarrow> Some b | OnAddBooking b \<Rightarrow> Some b | _ \<Rightarrow> None)"

subsection \<open>The quick status change\<close>

text \<open>The result is the booking passed to \<^verbatim>\<open>onUpdateBooking\<close>, if the callback is called.\<close>

definition updateStatus :: "PageState \<Rightarrow> string \<Rightarrow> BookingStatus \<Rightarrow> Booking option" where
  "updateStatus st i newStatus =
     (case find (\<lambda>b. bid b = i) (bookings st) of
        Some booking \<Rightarrow> Some (booking\<lparr>status := newStatus\<rparr>)
      | None \<Rightarrow> None)"

section \<open>The operations page (src/pages/LoginPage.tsx, from line 85)\<close>

text \<open>
  The page that the application mounts: \<^verbatim>\<open>renderContent\<close> renders \<^verbatim>\<open>OperationsPage\<close>
  with the bookings, the employees, the services and the two handlers, and the booking
  page above is not imported. The source of the operations page follows that of the
  login page in the same file. It declares the same props and the same state of the
  modal as the booking page, so \<open>PageState\<close> and \<open>FormData\<close> serve for both; its form
  data always carry a discount, a number that the voucher selector sets with
  \<^verbatim>\<open>Number(e.target.value)\<close>, and \<open>None\<close> stands for a value that is no number
  (\<^verbatim>\<open>NaN\<close> or \<^verbatim>\<open>undefined\<close>). \<^verbatim>\<open>generateTimeSlots\<close> and \<^verbatim>\<open>timeToMinutes\<close> are the
  same text on both pages. Where a name of this page is also a name of the booking page,
  it carries the suffix \<open>_ops\<close>.
\<close>

definition ALL_TIME_SLOTS :: "TimeSlot list" where
  "ALL_TIME_SLOTS = generateTimeSlots"

definition isBlocking :: "BookingStatus \<Rightarrow> bool" where
  "isBlocking s = (s = CONFIRMED \<or> s = IN_PROGRESS \<or> s = PENDING)"

definition overlapsCheck_ops :: "PageState \<Rightarrow> int option \<Rightarrow> int option \<Rightarrow> Booking \<Rightarrow> bool" where
  "overlapsCheck_ops st checkStart checkEnd b =
     (if isEditing st \<and> Some (bid b) = currentId st then False
      else if \<not> isBlocking (status b) then False
      else (let bStart = timeToMinutes (time b);
                bEnd = js_add bStart (Some (duration b))
            in js_less (Math_max checkStart bStart) (Math_min checkEnd bEnd)))"

definition getRoomAvailability_ops :: "PageState \<Rightarrow> string \<Rightarrow> int \<Rightarrow> Availability" where
  "getRoomAvailability_ops st checkTime dur =
     (let checkStart = timeToMinutes checkTime;
          checkEnd = js_add checkStart (Some dur);
          relevantBookings = filter (\<lambda>b. date b = f_date (formData st)) (bookings st);
          overlappingBookings = filter (overlapsCheck_ops st checkStart checkEnd) relevantBookings
      in \<lparr>isAvailable = length overlappingBookings < TOTAL_ROOMS,
          occupiedCount = length overlappingBookings\<rparr>)"

function slotLoop_ops :: "PageState \<Rightarrow> int \<Rightarrow> nat \<Rightarrow> string option" where
  "slotLoop_ops st dur i =
     (if i < length ALL_TIME_SLOTS then
        (let slot = ALL_TIME_SLOTS ! i;
             check = getRoomAvailability_ops st (slot_time slot) dur
         in if isAvailable check then Some (slot_time slot) else slotLoop_ops st dur (i + 1))
      else None)"
  by pat_completeness auto
termination
  by (relation "measure (\<lambda>(st, dur, i). length ALL_TIME_SLOTS - i)") auto

declare slotLoop_ops.simps [simp del]

definition roomStatus_ops :: "PageState \<Rightarrow> RoomStatus" where
  "roomStatus_ops st =
     (case selectedService st of
        None \<Rightarrow> \<lparr>isFull = False, nextTime = None\<rparr>
      | Some svc \<Rightarrow>
          if f_time (formData st) = [] then \<lparr>isFull = False, nextTime = None\<rparr>
          else if isAvailable (getRoomAvailability_ops st (f_time (formData st)) (sduration svc))
          then \<lparr>isFull = False, nextTime = None\<rparr>
          else \<lparr>isFull = True,
                nextTime =
                  (case findIndex (\<lambda>t. slot_time t = f_time (formData st)) ALL_TIME_SLOTS of
                     None \<Rightarrow> None
                   | Some startIndex \<Rightarrow> slotLoop_ops st (sduration svc) (startIndex + 1))\<rparr>)"

text \<open>
  \<open>shouldCheckRoom\<close> is the variable of that name in \<^verbatim>\<open>handleSubmit\<close>: false when
  the form edits a booking of the collection whose date and time are those of the form
  and whose duration is that of the service. \<open>discountAmount\<close> is
  \<^verbatim>\<open>Number(formData.discount) || 0\<close>.
\<close>

definition shouldCheckRoom :: "PageState \<Rightarrow> Service \<Rightarrow> bool" where
  "shouldCheckRoom st service =
     (case (if isEditing st then currentId st else None) of
        Some cid \<Rightarrow>
          if cid \<noteq> [] then
            (case find (\<lambda>b. bid b = cid) (bookings st) of
               Some originalBooking \<Rightarrow>
                 \<not> (date originalBooking = f_date (formData st)
                    \<and> time originalBooking = f_time (formData st)
                    \<and> duration originalBooking = sduration service)
             | None \<Rightarrow> True)
          else True
      | None \<Rightarrow> True)"

definition discountAmount :: "FormData \<Rightarrow> int" where
  "discountAmount fd = (case f_discount fd of Some d \<Rightarrow> d | None \<Rightarrow> 0)"

definition handleSubmit_ops :: "PageState \<Rightarrow> bool \<Rightarrow> string \<Rightarrow> string \<Rightarrow> SubmitResult" where
  "handleSubmit_ops st confirmOverbook newId newCode =
     (case find (\<lambda>s. sid s = f_serviceId (formData st)) (services st) of
        None \<Rightarrow> \<lparr>confirmShown = False, effect = AlertChooseService,
                   modalOpenAfter = isModalOpen st\<rparr>
      | Some service \<Rightarrow>
          if shouldCheckRoom st service \<and> isFull (roomStatus_ops st) \<and> \<not> confirmOverbook
          then \<lparr>confirmShown = True, effect = OverbookDeclined, modalOpenAfter = isModalOpen st\<rparr>
          else
            (let warned = (shouldCheckRoom st service \<and> isFull (roomStatus_ops st));
                 validStaffIds = validStaffIdsOf (formData st)
             in if int (length validStaffIds) < staffCount service
                then \<lparr>confirmShown = warned,
                      effect = AlertNotEnoughStaff (staffCount service),
                      modalOpenAfter = isModalOpen st\<rparr>
                else
                  (let selectedStaffObjects =
                         List.map_filter (\<lambda>i. find (\<lambda>e. eid e = i) (employees st)) validStaffIds;
                       staffNameString =
                         (if length selectedStaffObjects > 0
                          then join '', '' (map ename selectedStaffObjects)
                          else NO_STAFF_LABEL);
                       primaryStaffId = (case validStaffIds of [] \<Rightarrow> None | i # _ \<Rightarrow> Some i);
                       finalTotalAmount = max 0 (price service - discountAmount (formData st));
                       finalBookingData = (\<lambda>theId theCode.
                         \<lparr>bid = theId,
                          code = theCode,
                          customerName = f_customerName (formData st),
                          customerPhone = f_customerPhone (formData st),
                          serviceId = f_serviceId (formData st),
                          serviceName = sname service,
                          staffId = primaryStaffId,
                          staffIds = Some validStaffIds,
                          staffName = staffNameString,
                          date = f_date (formData st),
                          time = f_time (formData st),
                          duration = sduration service,
                          status = f_status (formData st),
                          bnotes = f_notes (formData st),
                          totalAmount = finalTotalAmount,
                          discount = Some (discountAmount (formData st))\<rparr>)
                   in case (if isEditing st then currentId st else None) of
                        Some cid \<Rightarrow>
                          if cid \<noteq> []
                          then \<lparr>confirmShown = warned,
                                effect = OnUpdateBooking (finalBookingData cid None),
                                modalOpenAfter = False\<rparr>
                          else \<lparr>confirmShown = warned,
                                effect = OnAddBooking (finalBookingData newId (Some newCode)),
                                modalOpenAfter = False\<rparr>
                      | None \<Rightarrow>
                          \<lparr>confirmShown = warned,
                           effect = OnAddBooking (finalBookingData newId (Some newCode)),
                           modalOpenAfter = False\<rparr>)))"

definition openEditModal_ops :: "PageState \<Rightarrow> Booking \<Rightarrow> PageState" where
  "openEditModal_ops st booking =
     (let initialSelectedStaffIds =
            (case staffIds booking of
               Some ids \<Rightarrow>
                 if length ids > 0 then ids
                 else (case staffId booking of
                         Some s \<Rightarrow> if s \<noteq> [] then [s] else []
                       | None \<Rightarrow> [])
             | None \<Rightarrow>
                 (case staffId booking of
                    Some s \<Rightarrow> if s \<noteq> [] then [s] else []
                  | None \<Rightarrow> []))
      in st\<lparr>formData :=
              \<lparr>f_customerName = customerName booking,
               f_customerPhone = customerPhone booking,
               f_serviceId = serviceId booking,
               f_staffId = Some (case staffId booking of Some s \<Rightarrow> s | None \<Rightarrow> []),
               f_staffIds = None,
               selectedStaffIds = initialSelectedStaffIds,
               f_date = date booking,
               f_time = time booking,
               f_status = status booking,
               f_notes = Some (case bnotes booking of Some n \<Rightarrow> n | None \<Rightarrow> []),
               f_discount = Some (case discount booking of Some d \<Rightarrow> d | None \<Rightarrow> 0)\<rparr>,
            currentId := Some (bid booking),
            isEditing := True,
            isModalOpen := True\<rparr>)"

section \<open>The booking handlers of the application (src/unnamed/part_000)\<close>

text \<open>
  The record that the external store returns for a booking, and the two handlers as
  functions of the collection at the time the state update runs, of the booking, and of
  the answer of the store: \<open>(data, error)\<close> for an insert and \<open>error\<close> for an update,
  an error being its message. The result is the new collection and the alert shown, if
  any.
\<close>

record BookingRow =
  row_id :: string
  row_code :: "string option"
  customer_name :: string
  customer_phone :: string
  service_id :: string
  staff_ids :: "string list option"
  row_date :: string
  row_time :: string
  row_duration :: int
  row_status :: BookingStatus
  total_amount :: int
  row_notes :: "string option"
  row_discount :: "int option"

datatype AppAlert = CreateError string | UpdateError string

definition mapped :: "BookingRow \<Rightarrow> Booking" where
  "mapped d =
     \<lparr>bid = row_id d,
      code = row_code d,
      customerName = customer_name d,
      customerPhone = customer_phone d,
      serviceId = service_id d,
      serviceName = [],
      staffId = None,
      staffIds = staff_ids d,
      staffName = [],
      date = row_date d,
      time = row_time d,
      duration = row_duration d,
      status = row_status d,
      bnotes = row_notes d,
      totalAmount = total_amount d,
      discount = row_discount d\<rparr>"

definition handleAddBooking ::
  "Booking list \<Rightarrow> Booking \<Rightarrow> BookingRow option \<times> string option \<Rightarrow> Booking list \<times> AppAlert option" where
  "handleAddBooking prev newBooking response =
     (case snd response of
        Some message \<Rightarrow> (prev, Some (CreateError message))
      | None \<Rightarrow>
          (case fst response of
             Some d \<Rightarrow> (prev @ [mapped d], None)
           | None \<Rightarrow> (prev, None)))"

definition handleUpdateBooking ::
  "Booking list \<Rightarrow> Booking \<Rightarrow> string option \<Rightarrow> Booking list \<times> AppAlert option" where
  "handleUpdateBooking prev updatedBooking error =
     (case error of
        Some message \<Rightarrow> (prev, Some (UpdateError message))
      | None \<Rightarrow> (map (\<lambda>b. if bid b = bid updatedBooking then updatedBooking else b) prev, None))"

text \<open>
  The application hands the two handlers to its pages as the callbacks
  \<^verbatim>\<open>onAddBooking\<close> and \<^verbatim>\<open>onUpdateBooking\<close>, the props that the booking page
  declares. \<open>dispatchCallback\<close> is the collection after the effect of a submission went
  through them; an effect that calls no callback reaches no handler.
\<close>

definition dispatchCallback ::
  "Booking list \<Rightarrow> SubmitEffect \<Rightarrow> BookingRow option \<times> string option \<Rightarrow> Booking list" where
  "dispatchCallback prev eff response =
     (case eff of
        OnAddBooking b \<Rightarrow> fst (handleAddBooking prev b response)
      | OnUpdateBooking b \<Rightarrow> fst (handleUpdateBooking prev b (snd response))
      | _ \<Rightarrow> prev)"

section \<open>The words of the specification\<close>

text \<open>
  The blocking statuses and the half-open interval of minutes
  \<open>[start, start + duration)\<close> of a start time and a duration (empty when the start
  time reads as \<^verbatim>\<open>NaN\<close>), written from the words of the specification, and the count
  of the room check in those words, for comparison with the source.
\<close>

definition spec_isBlocking :: "BookingStatus \<Rightarrow> bool" where
  "spec_isBlocking s = (s = PENDING \<or> s = CONFIRMED \<or> s = IN_PROGRESS)"

definition halfOpen :: "string \<Rightarrow> int \<Rightarrow> int set" where
  "halfOpen start dur = (case timeToMinutes start of Some s \<Rightarrow> {s..<s + dur} | None \<Rightarrow> {})"

definition spec_occupiedCount :: "PageState \<Rightarrow> string \<Rightarrow> int \<Rightarrow> nat" where
  "spec_occupiedCount st t m =
     length (filter (\<lambda>b. date b = f_date (formData st) \<and> spec_isBlocking (status b)
                          \<and> \<not> (isEditing st \<and> currentId st = Some (bid b))
                          \<and> halfOpen (time b) (duration b) \<inter> halfOpen t m \<noteq> {})
                    (bookings st))"

text \<open>
  \<open>counted st t m b\<close>, for the room check of the booking page: the booking \<open>b\<close> is on
  the date of the form, is not cancelled, is not the booking being edited, and its
  interval meets the window of \<open>m\<close> minutes from \<open>t\<close>.
\<close>

definition counted :: "PageState \<Rightarrow> string \<Rightarrow> int \<Rightarrow> Booking \<Rightarrow> bool" where
  "counted st t m b =
     (date b = f_date (formData st) \<and> status b \<noteq> CANCELLED
      \<and> \<not> (isEditing st \<and> currentId st = Some (bid b))
      \<and> halfOpen (time b) (duration b) \<inter> halfOpen t m \<noteq> {})"

text \<open>The same for the room check of the operations page, with its blocking statuses.\<close>

definition counted_ops :: "PageState \<Rightarrow> string \<Rightarrow> int \<Rightarrow> Booking \<Rightarrow> bool" where
  "counted_ops st t m b =
     (date b = f_date (formData st) \<and> isBlocking (status b)
      \<and> \<not> (isEditing st \<and> currentId st = Some (bid b))
      \<and> halfOpen (time b) (duration b) \<inter> halfOpen t m \<noteq> {})"

section \<open>Example inputs\<close>

text \<open>
  Two services of the application's initial data (\<^verbatim>\<open>INITIAL_SERVICES\<close>, ids 1 and 4;
  the Vietnamese name of the first without its diacritics, its description left out),
  bookings on one day, and page states built from them.
\<close>

definition service_1 :: Service where
  "service_1 = \<lparr>sid = ''1'', scode = ''DV001'', sname = ''Massage Body Da Nong'',
                image = ''https://picsum.photos/200/200?random=10'', category = MASSAGE,
                sduration = 90, price = 500000, staffCount = 1, sstatus = Svc_ACTIVE,
                description = []\<rparr>"

definition service_4 :: Service where
  "service_4 = \<lparr>sid = ''4'', scode = ''DV004'', sname = ''Massage Aroma 60'', image = [],
                category = MASSAGE, sduration = 60, price = 400000, staffCount = 1,
                sstatus = Svc_ACTIVE, description = []\<rparr>"

definition ex_booking :: "string \<Rightarrow> string \<Rightarrow> int \<Rightarrow> BookingStatus \<Rightarrow> Booking" where
  "ex_booking i t dur s =
     \<lparr>bid = i, code = Some (''BK00'' @ i), customerName = ''An'', customerPhone = ''0900000000'',
      serviceId = ''4'', serviceName = ''Massage Aroma 60'', staffId = Some ''2'',
      staffIds = Some [''2''], staffName = ''Minh'', date = ''2025-01-15'', time = t,
      duration = dur, status = s, bnotes = None, totalAmount = 400000, discount = None\<rparr>"

definition ex_form :: "string \<Rightarrow> string \<Rightarrow> int option \<Rightarrow> FormData" where
  "ex_form svc t disc =
     \<lparr>f_customerName = ''Binh'', f_customerPhone = ''0911111111'', f_serviceId = svc,
      f_staffId = Some [], f_staffIds = None, selectedStaffIds = [''2''],
      f_date = ''2025-01-15'', f_time = t, f_status = CONFIRMED, f_notes = Some [],
      f_discount = disc\<rparr>"

definition ex_page :: "Booking list \<Rightarrow> FormData \<Rightarrow> PageState" where
  "ex_page bs fd =
     \<lparr>bookings = bs, employees = [], services = [service_1, service_4], formData = fd,
      isEditing = False, currentId = None, isModalOpen = True\<rparr>"

definition five_at_ten :: "Booking list" where
  "five_at_ten = map (\<lambda>i. ex_booking i ''10:00'' 60 CONFIRMED) [''1'', ''2'', ''3'', ''4'', ''5'']"

definition ex_row :: BookingRow where
  "ex_row = \<lparr>row_id = ''9'', row_code = Some ''BK009'', customer_name = ''Binh'',
             customer_phone = ''0911111111'', service_id = ''4'', staff_ids = Some [''2''],
             row_date = ''2025-01-15'', row_time = ''12:00'', row_duration = 60,
             row_status = CONFIRMED, total_amount = 400000, row_notes = None,
             row_discount = None\<rparr>"

text \<open>
  The edit form of the operations page for booking 6 (10:00, 60 minutes), opened on a
  collection in which five other bookings occupy the rooms at 10:00, with nothing
  changed.
\<close>

definition edit_unchanged :: PageState where
  "edit_unchanged =
     openEditModal_ops (ex_page (ex_booking ''6'' ''10:00'' 60 CONFIRMED # five_at_ten)
                                (ex_form [] ''10:00'' None))
                       (ex_booking ''6'' ''10:00'' 60 CONFIRMED)"

section \<open>Facts about the room check\<close>

text \<open>
  The overlap test of the page on two parsed starts is the comparison
  \<open>max a b < min c d\<close>, and on integers this is the same as the two half-open
  intervals having a minute in common.
\<close>

lemma js_overlap_Some:
  "js_less (Math_max (Some a) (Some b)) (Math_min (Some c) (Some d)) = (max a b < min c d)"
  by (simp add: js_less_def Math_max_def Math_min_def)

lemma ivl_meet_iff:
  fixes a b c d :: int
  shows "({a..<b} \<inter> {c..<d} \<noteq> {}) = (max a c < min b d)"
  by auto

lemma halfOpen_Some: "timeToMinutes t = Some s \<Longrightarrow> halfOpen t m = {s..<s + m}"
  by (simp add: halfOpen_def)

lemma overlapsCheck_iff:
  "overlapsCheck st (timeToMinutes t) (js_add (timeToMinutes t) (Some m)) b =
     (status b \<noteq> CANCELLED \<and> \<not> (isEditing st \<and> currentId st = Some (bid b))
      \<and> halfOpen (time b) (duration b) \<inter> halfOpen t m \<noteq> {})"
proof (cases "timeToMinutes t")
  case None
  then show ?thesis
    by (simp add: overlapsCheck_def halfOpen_def js_less_def Math_max_def Math_min_def js_add_def Let_def
             split: option.splits)
next
  case (Some cs)
  show ?thesis
  proof (cases "timeToMinutes (time b)")
    case None
    then show ?thesis
      using Some
      by (simp add: overlapsCheck_def halfOpen_def js_less_def Math_max_def Math_min_def js_add_def Let_def)
  next
    case bs: (Some bs)
    have "({bs..<bs + duration b} \<inter> {cs..<cs + m} \<noteq> {}) = (max cs bs < min (cs + m) (bs + duration b))"
      by (auto simp add: ivl_meet_iff)
    then show ?thesis
      using Some bs
      by (auto simp add: overlapsCheck_def halfOpen_def js_overlap_Some js_add_def Let_def)
  qed
qed

text \<open>The two filters of \<^verbatim>\<open>getRoomAvailability\<close> as one.\<close>

lemma occupiedCount_eq:
  "occupiedCount (getRoomAvailability st t m) = length (filter (counted st t m) (bookings st))"
proof -
  have "(\<lambda>b. date b = f_date (formData st)
              \<and> overlapsCheck st (timeToMinutes t) (js_add (timeToMinutes t) (Some m)) b)
        = counted st t m"
    by (auto simp add: fun_eq_iff overlapsCheck_iff counted_def)
  then show ?thesis
    by (simp add: getRoomAvailability_def Let_def conj_commute)
qed

lemma isAvailable_eq:
  "isAvailable (getRoomAvailability st t m) = (occupiedCount (getRoomAvailability st t m) < TOTAL_ROOMS)"
  by (simp add: getRoomAvailability_def Let_def)

lemma counted_bookings_update [simp]:
  "counted (st\<lparr>bookings := xs\<rparr>) t m = counted st t m"
  by (simp add: counted_def fun_eq_iff)

lemma occupied_insert:
  "occupiedCount (getRoomAvailability (st\<lparr>bookings := pre @ b # post\<rparr>) t m) =
   occupiedCount (getRoomAvailability (st\<lparr>bookings := pre @ post\<rparr>) t m) + (if counted st t m b then 1 else 0)"
  by (simp add: occupiedCount_eq)

lemma counted_parsed:
  assumes "timeToMinutes t = Some cs" and "timeToMinutes (time b) = Some bs"
      and "date b = f_date (formData st)" and "status b \<noteq> CANCELLED"
      and "\<not> (isEditing st \<and> currentId st = Some (bid b))"
  shows "counted st t m b = (max cs bs < min (cs + m) (bs + duration b))"
  using assms by (auto simp add: counted_def halfOpen_def)

subsection \<open>The room check of the operations page\<close>

lemma overlapsCheck_ops_iff:
  "overlapsCheck_ops st (timeToMinutes t) (js_add (timeToMinutes t) (Some m)) b =
     (isBlocking (status b) \<and> \<not> (isEditing st \<and> currentId st = Some (bid b))
      \<and> halfOpen (time b) (duration b) \<inter> halfOpen t m \<noteq> {})"
proof (cases "timeToMinutes t")
  case None
  then show ?thesis
    by (simp add: overlapsCheck_ops_def halfOpen_def js_less_def Math_max_def Math_min_def
                  js_add_def Let_def split: option.splits)
next
  case (Some cs)
  show ?thesis
  proof (cases "timeToMinutes (time b)")
    case None
    then show ?thesis
      using Some
      by (simp add: overlapsCheck_ops_def halfOpen_def js_less_def Math_max_def Math_min_def
                    js_add_def Let_def)
  next
    case bs: (Some bs)
    have "({bs..<bs + duration b} \<inter> {cs..<cs + m} \<noteq> {}) = (max cs bs < min (cs + m) (bs + duration b))"
      by (auto simp add: ivl_meet_iff)
    then show ?thesis
      using Some bs
      by (auto simp add: overlapsCheck_ops_def halfOpen_def js_overlap_Some js_add_def Let_def)
  qed
qed

lemma occupiedCount_ops_eq:
  "occupiedCount (getRoomAvailability_ops st t m) = length (filter (counted_ops st t m) (bookings st))"
proof -
  have "(\<lambda>b. date b = f_date (formData st)
              \<and> overlapsCheck_ops st (timeToMinutes t) (js_add (timeToMinutes t) (Some m)) b)
        = counted_ops st t m"
    by (auto simp add: fun_eq_iff overlapsCheck_ops_iff counted_ops_def)
  then show ?thesis
    by (simp add: getRoomAvailability_ops_def Let_def conj_commute)
qed

lemma isAvailable_ops_eq:
  "isAvailable (getRoomAvailability_ops st t m)
   = (occupiedCount (getRoomAvailability_ops st t m) < TOTAL_ROOMS)"
  by (simp add: getRoomAvailability_ops_def Let_def)

lemma counted_ops_bookings_update [simp]:
  "counted_ops (st\<lparr>bookings := xs\<rparr>) t m = counted_ops st t m"
  by (simp add: counted_ops_def fun_eq_iff)

lemma occupied_ops_insert:
  "occupiedCount (getRoomAvailability_ops (st\<lparr>bookings := pre @ b # post\<rparr>) t m) =
   occupiedCount (getRoomAvailability_ops (st\<lparr>bookings := pre @ post\<rparr>) t m)
   + (if counted_ops st t m b then 1 else 0)"
  by (simp add: occupiedCount_ops_eq)

text \<open>The function of the source and the list of the specification are the same.\<close>

lemma isBlocking_spec: "isBlocking s = spec_isBlocking s"
  by (auto simp add: isBlocking_def spec_isBlocking_def)

subsection \<open>Evaluating the examples\<close>

lemmas time_eval = timeToMinutes_def Number_def isDigit_def digitVal_def js_add_def js_mul_def

lemmas ex_defs = ex_page_def ex_booking_def ex_form_def five_at_ten_def service_1_def service_4_def

lemma t1000: "timeToMinutes ''10:00'' = Some 600" by (simp add: time_eval)

lemma t1100: "timeToMinutes ''11:00'' = Some 660" by (simp add: time_eval)

lemma t1200: "timeToMinutes ''12:00'' = Some 720" by (simp add: time_eval)

lemmas ho_eval = halfOpen_Some [OF t1000] halfOpen_Some [OF t1100] halfOpen_Some [OF t1200]

lemma ex_selected_4: "selectedService (ex_page bs (ex_form ''4'' t d)) = Some service_4"
  by (simp add: selectedService_def ex_defs)

lemma ex_selected_1: "selectedService (ex_page bs (ex_form ''1'' t d)) = Some service_1"
  by (simp add: selectedService_def ex_defs)

lemma ex_valid_staff: "validStaffIdsOf (ex_form svc t d) = [''2'']"
  by (simp add: validStaffIdsOf_def ex_form_def trim_def isWhiteSpace_def)

section \<open>Facts about the form\<close>

lemma selectedService_find:
  "find (\<lambda>s. sid s = f_serviceId (formData st)) (services st) = selectedService st"
  by (simp add: selectedService_def)


lemma dispatch_no_callback:
  "submittedBooking r = None \<Longrightarrow> dispatchCallback prev (effect r) resp = prev"
  by (simp add: submittedBooking_def dispatchCallback_def split: SubmitEffect.splits)

lemma valid_le_nonempty:
  "length (validStaffIdsOf fd) \<le> length (filter (\<lambda>i. i \<noteq> []) (selectedStaffIds fd))"
proof -
  have "validStaffIdsOf fd = filter (\<lambda>i. trim i \<noteq> []) (filter (\<lambda>i. i \<noteq> []) (selectedStaffIds fd))"
    by (simp add: validStaffIdsOf_def)
  then show ?thesis by (metis length_filter_le)
qed

subsection \<open>The form of the operations page\<close>

lemma submitted_ops_fields:
  assumes "selectedService st = Some s"
      and "submittedBooking (handleSubmit_ops st c i k) = Some b"
  shows "totalAmount b = max 0 (price s - discountAmount (formData st))
         \<and> discount b = Some (discountAmount (formData st)) \<and> duration b = sduration s"
  using assms
  by (auto simp add: handleSubmit_ops_def submittedBooking_def selectedService_find Let_def
           split: if_splits option.splits)

lemma confirmShown_ops_eq:
  assumes "selectedService st = Some s"
  shows "confirmShown (handleSubmit_ops st c i k) = (shouldCheckRoom st s \<and> isFull (roomStatus_ops st))"
  using assms
  by (auto simp add: handleSubmit_ops_def selectedService_find Let_def split: option.splits)

lemma declined_ops:
  assumes "selectedService st = Some s"
  shows "(effect (handleSubmit_ops st c i k) = OverbookDeclined)
         = (shouldCheckRoom st s \<and> isFull (roomStatus_ops st) \<and> \<not> c)"
  using assms
  by (auto simp add: handleSubmit_ops_def selectedService_find Let_def split: option.splits)

lemma ex_submit_ops:
  "submittedBooking (handleSubmit_ops (ex_page [] (ex_form ''1'' ''12:00'' d)) True ''77'' ''BK001'')
   = Some \<lparr>bid = ''77'', code = Some ''BK001'', customerName = ''Binh'',
           customerPhone = ''0911111111'', serviceId = ''1'',
           serviceName = ''Massage Body Da Nong'', staffId = Some ''2'',
           staffIds = Some [''2''], staffName = ''Chua chi dinh'',
           date = ''2025-01-15'', time = ''12:00'', duration = 90,
           status = CONFIRMED, bnotes = Some [],
           totalAmount = max 0 (500000 - (case d of Some x \<Rightarrow> x | None \<Rightarrow> 0)),
           discount = Some (case d of Some x \<Rightarrow> x | None \<Rightarrow> 0)\<rparr>"
  by (simp add: handleSubmit_ops_def submittedBooking_def roomStatus_ops_def selectedService_def
                isAvailable_ops_eq occupiedCount_ops_eq TOTAL_ROOMS_def validStaffIdsOf_def trim_def
                isWhiteSpace_def NO_STAFF_LABEL_def discountAmount_def shouldCheckRoom_def
                Let_def ex_defs)

lemma edit_unchanged_eq:
  "edit_unchanged = \<lparr>bookings = ex_booking ''6'' ''10:00'' 60 CONFIRMED # five_at_ten,
              employees = [], services = [service_1, service_4],
              formData = \<lparr>f_customerName = ''An'', f_customerPhone = ''0900000000'',
                          f_serviceId = ''4'', f_staffId = Some ''2'', f_staffIds = None,
                          selectedStaffIds = [''2''], f_date = ''2025-01-15'',
                          f_time = ''10:00'', f_status = CONFIRMED, f_notes = Some [],
                          f_discount = Some 0\<rparr>,
              isEditing = True, currentId = Some ''6'', isModalOpen = True\<rparr>"
  by (simp add: edit_unchanged_def openEditModal_ops_def ex_page_def ex_booking_def ex_form_def)

lemma edit_unchanged_selected: "selectedService edit_unchanged = Some service_4"
  by (simp add: edit_unchanged_eq selectedService_def service_1_def service_4_def)

lemma edit_unchanged_full: "isFull (roomStatus_ops edit_unchanged)"
proof -
  have "length (filter (counted_ops edit_unchanged ''10:00'' 60) (bookings edit_unchanged)) = 5"
    by (simp add: edit_unchanged_eq counted_ops_def isBlocking_def five_at_ten_def ex_booking_def
                  ho_eval)
  moreover have "f_time (formData edit_unchanged) = ''10:00''" "sduration service_4 = 60"
    by (simp_all add: edit_unchanged_eq service_4_def)
  ultimately show ?thesis
    by (simp add: roomStatus_ops_def edit_unchanged_selected isAvailable_ops_eq
                  occupiedCount_ops_eq TOTAL_ROOMS_def)
qed

section \<open>Facts about the slot search\<close>










subsection \<open>Five bookings at 10:00\<close>





section \<open>Facts about the handlers\<close>

lemma find_distinct_bid:
  "distinct (map bid bs) \<Longrightarrow> b \<in> set bs \<Longrightarrow> find (\<lambda>x. bid x = bid b) bs = Some b"
  by (induction bs) (auto simp add: image_iff)

lemma map_replace_distinct:
  "distinct (map bid bs) \<Longrightarrow> j < length bs \<Longrightarrow>
   map (\<lambda>x. if bid x = bid (bs ! j) then u else x) bs = bs[j := u]"
proof (induction bs arbitrary: j)
  case Nil
  then show ?case by simp
next
  case (Cons a bs)
  show ?case
  proof (cases j)
    case 0
    have "map (\<lambda>x. if bid x = bid a then u else x) bs = bs"
      using Cons.prems(1) by (intro map_idI) (auto simp add: image_iff)
    with 0 show ?thesis by simp
  next
    case (Suc n)
    with Cons.prems have n: "n < length bs" and d: "distinct (map bid bs)" by simp_all
    have "bid a \<noteq> bid (bs ! n)"
      using Cons.prems(1) n by (auto simp add: image_iff)
    with Suc Cons.IH [OF d n] show ?thesis by simp
  qed
qed

section \<open>The claims\<close>

subsection \<open>C1: what the room check counts\<close>

text \<open>
  Claim C1. For every date, start time \<open>t\<close>, duration \<open>m\<close> and collection, the room
  check reports as \<open>occupiedCount\<close> the number of bookings on the date of the form whose
  status is blocking, whose half-open interval \<open>[start, start + duration)\<close> meets the
  window \<open>[t, t + m)\<close>, the booking being edited left out; and it reports available
  exactly when that number is below \<open>TOTAL_ROOMS\<close>, which is 5.

  Proved of \<^verbatim>\<open>getRoomAvailability\<close> of the operations page, the page that the
  application mounts. The count is stated with the blocking statuses in the words of the
  specification, and as \<open>spec_occupiedCount\<close>.
\<close>

theorem C1_room_availability:
  "occupiedCount (getRoomAvailability_ops st t m) =
     length (filter (\<lambda>b. date b = f_date (formData st) \<and> spec_isBlocking (status b)
                          \<and> \<not> (isEditing st \<and> currentId st = Some (bid b))
                          \<and> halfOpen (time b) (duration b) \<inter> halfOpen t m \<noteq> {})
                    (bookings st))
   \<and> occupiedCount (getRoomAvailability_ops st t m) = spec_occupiedCount st t m
   \<and> isAvailable (getRoomAvailability_ops st t m)
       = (occupiedCount (getRoomAvailability_ops st t m) < TOTAL_ROOMS)
   \<and> TOTAL_ROOMS = 5"
  by (simp add: occupiedCount_ops_eq counted_ops_def [abs_def] isBlocking_spec isAvailable_ops_eq
                spec_occupiedCount_def TOTAL_ROOMS_def)

text \<open>
  The theorem at a day with a completed, a confirmed, a pending, a cancelled and a
  started booking: for the window from 10:00 to 11:00 the confirmed one and the started
  one at 10:30 are counted, the pending one at 11:00 only touches the window; and at the
  five confirmed bookings at 10:00, which leave no room.
\<close>

theorem C1_room_availability_witness:
  "occupiedCount (getRoomAvailability_ops
      (ex_page [ex_booking ''1'' ''10:00'' 60 COMPLETED, ex_booking ''2'' ''10:00'' 60 CONFIRMED,
                ex_booking ''3'' ''11:00'' 60 PENDING, ex_booking ''4'' ''10:30'' 60 CANCELLED,
                ex_booking ''5'' ''10:30'' 60 IN_PROGRESS]
               (ex_form ''4'' ''10:00'' None)) ''10:00'' 60) = 2
   \<and> isAvailable (getRoomAvailability_ops
      (ex_page [ex_booking ''1'' ''10:00'' 60 COMPLETED, ex_booking ''2'' ''10:00'' 60 CONFIRMED,
                ex_booking ''3'' ''11:00'' 60 PENDING, ex_booking ''4'' ''10:30'' 60 CANCELLED,
                ex_booking ''5'' ''10:30'' 60 IN_PROGRESS]
               (ex_form ''4'' ''10:00'' None)) ''10:00'' 60)
   \<and> occupiedCount (getRoomAvailability_ops (ex_page five_at_ten (ex_form ''4'' ''10:00'' None))
                                             ''10:00'' 60) = 5
   \<and> \<not> isAvailable (getRoomAvailability_ops (ex_page five_at_ten (ex_form ''4'' ''10:00'' None))
                                               ''10:00'' 60)"
proof -
  have t1030: "timeToMinutes ''10:30'' = Some 630"
    by (simp add: time_eval)
  show ?thesis
    using C1_room_availability
            [of "ex_page [ex_booking ''1'' ''10:00'' 60 COMPLETED, ex_booking ''2'' ''10:00'' 60 CONFIRMED,
                  ex_booking ''3'' ''11:00'' 60 PENDING, ex_booking ''4'' ''10:30'' 60 CANCELLED,
                  ex_booking ''5'' ''10:30'' 60 IN_PROGRESS] (ex_form ''4'' ''10:00'' None)"
                "''10:00''" 60]
          C1_room_availability [of "ex_page five_at_ten (ex_form ''4'' ''10:00'' None)" "''10:00''" 60]
    by (simp add: spec_isBlocking_def ex_defs ho_eval halfOpen_Some [OF t1030])
qed

subsection \<open>C2: the statuses that take up a room\<close>

text \<open>
  Claim C2. A status takes up a room exactly when it is Pending, Confirmed or
  InProgress; a completed or cancelled booking is never counted by the room check.

  Proved of \<^verbatim>\<open>isBlocking\<close> and \<^verbatim>\<open>getRoomAvailability\<close> of the operations page: a
  completed or cancelled booking never changes the count, wherever it stands in the
  collection, and the count is that of the collection without such bookings; a booking
  of a blocking status that is on the date, is not the one being edited and meets the
  window adds exactly one.
\<close>

theorem C2_blocking_statuses:
  "isBlocking s = (s \<in> {PENDING, CONFIRMED, IN_PROGRESS})
   \<and> (status b \<in> {COMPLETED, CANCELLED} \<longrightarrow>
        occupiedCount (getRoomAvailability_ops (st\<lparr>bookings := pre @ b # post\<rparr>) t m)
        = occupiedCount (getRoomAvailability_ops (st\<lparr>bookings := pre @ post\<rparr>) t m))
   \<and> (status b \<in> {PENDING, CONFIRMED, IN_PROGRESS}
        \<and> date b = f_date (formData st)
        \<and> \<not> (isEditing st \<and> currentId st = Some (bid b))
        \<and> halfOpen (time b) (duration b) \<inter> halfOpen t m \<noteq> {} \<longrightarrow>
        occupiedCount (getRoomAvailability_ops (st\<lparr>bookings := pre @ b # post\<rparr>) t m)
        = occupiedCount (getRoomAvailability_ops (st\<lparr>bookings := pre @ post\<rparr>) t m) + 1)
   \<and> occupiedCount (getRoomAvailability_ops st t m)
       = occupiedCount (getRoomAvailability_ops
           (st\<lparr>bookings := filter (\<lambda>x. status x \<noteq> COMPLETED \<and> status x \<noteq> CANCELLED) (bookings st)\<rparr>)
           t m)"
proof -
  have a: "isBlocking s = (s \<in> {PENDING, CONFIRMED, IN_PROGRESS})"
    by (auto simp add: isBlocking_def)
  have nb: "\<not> isBlocking x" if "x \<in> {COMPLETED, CANCELLED}" for x
    using that by (auto simp add: isBlocking_def)
  have bl: "isBlocking x" if "x \<in> {PENDING, CONFIRMED, IN_PROGRESS}" for x
    using that by (auto simp add: isBlocking_def)
  have free: "occupiedCount (getRoomAvailability_ops (st\<lparr>bookings := pre @ b # post\<rparr>) t m)
        = occupiedCount (getRoomAvailability_ops (st\<lparr>bookings := pre @ post\<rparr>) t m)"
    if "status b \<in> {COMPLETED, CANCELLED}"
    using nb [OF that] by (simp add: occupied_ops_insert counted_ops_def)
  have busy: "occupiedCount (getRoomAvailability_ops (st\<lparr>bookings := pre @ b # post\<rparr>) t m)
        = occupiedCount (getRoomAvailability_ops (st\<lparr>bookings := pre @ post\<rparr>) t m) + 1"
    if "status b \<in> {PENDING, CONFIRMED, IN_PROGRESS}" "date b = f_date (formData st)"
       "\<not> (isEditing st \<and> currentId st = Some (bid b))"
       "halfOpen (time b) (duration b) \<inter> halfOpen t m \<noteq> {}"
    using bl [OF that(1)] that(2-4) by (simp add: occupied_ops_insert counted_ops_def)
  have "counted_ops st t m x \<Longrightarrow> status x \<noteq> COMPLETED \<and> status x \<noteq> CANCELLED" for x
    using nb [of "status x"] by (auto simp add: counted_ops_def)
  then have "filter (counted_ops st t m)
             (filter (\<lambda>x. status x \<noteq> COMPLETED \<and> status x \<noteq> CANCELLED) (bookings st))
           = filter (counted_ops st t m) (bookings st)"
    by (auto intro!: filter_cong)
  then have drop: "occupiedCount (getRoomAvailability_ops st t m)
       = occupiedCount (getRoomAvailability_ops
           (st\<lparr>bookings := filter (\<lambda>x. status x \<noteq> COMPLETED \<and> status x \<noteq> CANCELLED) (bookings st)\<rparr>)
           t m)"
    by (simp add: occupiedCount_ops_eq)
  show ?thesis
    using a free busy drop by blast
qed

text \<open>
  The theorem at a single completed booking (count 0) and at a single pending booking
  (count 1), both at 10:00 for 60 minutes, window 10:00 to 11:00.
\<close>

theorem C2_blocking_statuses_witness:
  "status (ex_booking ''7'' ''10:00'' 60 COMPLETED) \<in> {COMPLETED, CANCELLED}
   \<and> occupiedCount (getRoomAvailability_ops
        (ex_page [ex_booking ''7'' ''10:00'' 60 COMPLETED] (ex_form ''4'' ''10:00'' None)) ''10:00'' 60) = 0
   \<and> status (ex_booking ''8'' ''10:00'' 60 PENDING) \<in> {PENDING, CONFIRMED, IN_PROGRESS}
   \<and> occupiedCount (getRoomAvailability_ops
        (ex_page [ex_booking ''8'' ''10:00'' 60 PENDING] (ex_form ''4'' ''10:00'' None)) ''10:00'' 60) = 1"
  using C2_blocking_statuses [where b = "ex_booking ''7'' ''10:00'' 60 COMPLETED"
          and st = "ex_page [] (ex_form ''4'' ''10:00'' None)" and pre = "[]" and post = "[]"
          and t = "''10:00''" and m = 60 and s = COMPLETED]
        C2_blocking_statuses [where b = "ex_booking ''8'' ''10:00'' 60 PENDING"
          and st = "ex_page [] (ex_form ''4'' ''10:00'' None)" and pre = "[]" and post = "[]"
          and t = "''10:00''" and m = 60 and s = PENDING]
  by (simp add: occupiedCount_ops_eq ex_defs ho_eval)

subsection \<open>C3: the amount of a submitted booking\<close>

text \<open>
  Claim C3. For an accepted submission with service \<open>s\<close> and optional discount \<open>d\<close>
  the stored \<open>totalAmount\<close> is \<open>max 0 (price s - d)\<close>; a discount of 200000 on a price
  of 500000 gives 300000, a discount of 600000 gives 0, never a negative amount.

  Proved of \<^verbatim>\<open>handleSubmit\<close> of the operations page. The discount \<open>d\<close> is
  \<open>discountAmount\<close> of the form data: the discount of the form, or 0 when there is
  none.
\<close>

theorem C3_total_amount:
  "(selectedService st = Some s \<and> submittedBooking (handleSubmit_ops st c i k) = Some b \<longrightarrow>
      totalAmount b = max 0 (price s - discountAmount (formData st))
      \<and> 0 \<le> totalAmount b
      \<and> discount b = Some (discountAmount (formData st)))
   \<and> discountAmount (fd\<lparr>f_discount := Some d\<rparr>) = d
   \<and> discountAmount (fd\<lparr>f_discount := None\<rparr>) = 0
   \<and> price service_1 = 500000
   \<and> map_option totalAmount
        (submittedBooking (handleSubmit_ops (ex_page [] (ex_form ''1'' ''12:00'' (Some 200000)))
                                            True ''77'' ''BK001'')) = Some 300000
   \<and> map_option totalAmount
        (submittedBooking (handleSubmit_ops (ex_page [] (ex_form ''1'' ''12:00'' (Some 600000)))
                                            True ''77'' ''BK001'')) = Some 0"
proof -
  have g: "totalAmount b = max 0 (price s - discountAmount (formData st))
      \<and> 0 \<le> totalAmount b
      \<and> discount b = Some (discountAmount (formData st))"
    if "selectedService st = Some s" "submittedBooking (handleSubmit_ops st c i k) = Some b"
    using submitted_ops_fields [OF that] by simp
  have p: "price service_1 = 500000"
    by (simp add: service_1_def)
  show ?thesis
    using g by (simp add: discountAmount_def p ex_submit_ops)
qed

text \<open>
  The theorem at price 500000 with the voucher of 100000: the booking carries the amount
  400000 and the discount 100000.
\<close>

theorem C3_total_amount_witness:
  "selectedService (ex_page [] (ex_form ''1'' ''12:00'' (Some 100000))) = Some service_1
   \<and> discountAmount (formData (ex_page [] (ex_form ''1'' ''12:00'' (Some 100000)))) = 100000
   \<and> map_option totalAmount
        (submittedBooking (handleSubmit_ops (ex_page [] (ex_form ''1'' ''12:00'' (Some 100000)))
                                            True ''77'' ''BK001'')) = Some 400000
   \<and> map_option discount
        (submittedBooking (handleSubmit_ops (ex_page [] (ex_form ''1'' ''12:00'' (Some 100000)))
                                            True ''77'' ''BK001'')) = Some (Some 100000)"
proof -
  have d: "discountAmount (formData (ex_page [] (ex_form ''1'' ''12:00'' (Some 100000)))) = 100000"
    by (simp add: discountAmount_def ex_page_def ex_form_def)
  obtain b where b: "submittedBooking (handleSubmit_ops
                        (ex_page [] (ex_form ''1'' ''12:00'' (Some 100000))) True ''77'' ''BK001'')
                     = Some b"
    by (simp add: ex_submit_ops)
  from C3_total_amount [where st = "ex_page [] (ex_form ''1'' ''12:00'' (Some 100000))"
          and s = service_1 and c = True and i = "''77''" and k = "''BK001''" and b = b]
       ex_selected_1 [of "[]" "''12:00''" "Some 100000"] b
  have "totalAmount b = max 0 (price service_1 - 100000)" "discount b = Some 100000"
    by (simp_all add: d)
  then show ?thesis
    using b d ex_selected_1 [of "[]" "''12:00''" "Some 100000"]
    by (simp add: service_1_def)
qed

subsection \<open>C4: editing a booking and the room warning\<close>

text \<open>
  Claim C4. When a booking is edited and its date, time and duration are unchanged, the
  room check is bypassed and the warning is never shown, even if five other bookings
  occupy the rooms.

  Proved of \<^verbatim>\<open>handleSubmit\<close> of the operations page: \<open>original\<close> is the booking of
  the collection with the id being edited; when its date and time are those of the form
  and its duration is that of the service, \<open>shouldCheckRoom\<close> is false, no warning is
  shown and the submission is not stopped by it, whatever \<open>roomStatus\<close> says. In every
  case the warning is shown exactly when \<open>shouldCheckRoom\<close> holds and the rooms are
  full.
\<close>

theorem C4_unchanged_edit_bypasses_room_check:
  "(selectedService st = Some s
    \<and> isEditing st \<and> currentId st = Some cid \<and> cid \<noteq> []
    \<and> find (\<lambda>b. bid b = cid) (bookings st) = Some original
    \<and> date original = f_date (formData st)
    \<and> time original = f_time (formData st)
    \<and> duration original = sduration s
    \<longrightarrow> \<not> shouldCheckRoom st s
        \<and> \<not> confirmShown (handleSubmit_ops st c i k)
        \<and> effect (handleSubmit_ops st c i k) \<noteq> OverbookDeclined)
   \<and> (selectedService st = Some s \<longrightarrow>
        confirmShown (handleSubmit_ops st c i k)
        = (shouldCheckRoom st s \<and> isFull (roomStatus_ops st)))"
proof -
  have a: "\<not> shouldCheckRoom st s"
    if "isEditing st" "currentId st = Some cid" "cid \<noteq> []"
       "find (\<lambda>b. bid b = cid) (bookings st) = Some original"
       "date original = f_date (formData st)" "time original = f_time (formData st)"
       "duration original = sduration s"
    using that by (simp add: shouldCheckRoom_def)
  show ?thesis
    using a confirmShown_ops_eq [of st s c i k] declined_ops [of st s c i k]
    by blast
qed

text \<open>
  The theorem at the edit form of booking 6 with nothing changed: five other bookings
  fill the rooms at 10:00 and \<open>roomStatus\<close> says full, yet no warning is shown. With
  the time of the form moved to 10:10 the warning is shown.
\<close>

theorem C4_unchanged_edit_bypasses_room_check_witness:
  "selectedService edit_unchanged = Some service_4
   \<and> isEditing edit_unchanged \<and> currentId edit_unchanged = Some ''6''
   \<and> find (\<lambda>b. bid b = ''6'') (bookings edit_unchanged) = Some (ex_booking ''6'' ''10:00'' 60 CONFIRMED)
   \<and> date (ex_booking ''6'' ''10:00'' 60 CONFIRMED) = f_date (formData edit_unchanged)
   \<and> time (ex_booking ''6'' ''10:00'' 60 CONFIRMED) = f_time (formData edit_unchanged)
   \<and> duration (ex_booking ''6'' ''10:00'' 60 CONFIRMED) = sduration service_4
   \<and> occupiedCount (getRoomAvailability_ops edit_unchanged ''10:00'' 60) = 5
   \<and> isFull (roomStatus_ops edit_unchanged)
   \<and> \<not> confirmShown (handleSubmit_ops edit_unchanged False ''77'' ''BK007'')
   \<and> confirmShown (handleSubmit_ops
         (edit_unchanged\<lparr>formData := (formData edit_unchanged)\<lparr>f_time := ''10:10''\<rparr>\<rparr>)
         False ''77'' ''BK007'')"
proof -
  let ?moved = "edit_unchanged\<lparr>formData := (formData edit_unchanged)\<lparr>f_time := ''10:10''\<rparr>\<rparr>"
  have h: "isEditing edit_unchanged" "currentId edit_unchanged = Some ''6''" "''6'' \<noteq> []"
      "find (\<lambda>b. bid b = ''6'') (bookings edit_unchanged) = Some (ex_booking ''6'' ''10:00'' 60 CONFIRMED)"
      "date (ex_booking ''6'' ''10:00'' 60 CONFIRMED) = f_date (formData edit_unchanged)"
      "time (ex_booking ''6'' ''10:00'' 60 CONFIRMED) = f_time (formData edit_unchanged)"
      "duration (ex_booking ''6'' ''10:00'' 60 CONFIRMED) = sduration service_4"
    by (simp_all add: edit_unchanged_eq ex_booking_def service_4_def)
  have n: "occupiedCount (getRoomAvailability_ops edit_unchanged ''10:00'' 60) = 5"
    by (simp add: occupiedCount_ops_eq edit_unchanged_eq counted_ops_def isBlocking_def
                  five_at_ten_def ex_booking_def ho_eval)
  have a: "\<not> confirmShown (handleSubmit_ops edit_unchanged False ''77'' ''BK007'')"
    using C4_unchanged_edit_bypasses_room_check
            [where st = edit_unchanged and s = service_4 and cid = "''6''"
               and original = "ex_booking ''6'' ''10:00'' 60 CONFIRMED"
               and c = False and i = "''77''" and k = "''BK007''"]
          edit_unchanged_selected h
    by blast
  have s2: "selectedService ?moved = Some service_4"
    by (simp add: edit_unchanged_eq selectedService_def service_1_def service_4_def)
  have c2: "shouldCheckRoom ?moved service_4"
    by (simp add: shouldCheckRoom_def edit_unchanged_eq ex_booking_def)
  have t1010: "timeToMinutes ''10:10'' = Some 610"
    by (simp add: time_eval)
  have f2: "isFull (roomStatus_ops ?moved)"
  proof -
    have "length (filter (counted_ops ?moved ''10:10'' 60) (bookings ?moved)) = 5"
      by (simp add: edit_unchanged_eq counted_ops_def isBlocking_def five_at_ten_def ex_booking_def
                    ho_eval halfOpen_Some [OF t1010])
    moreover have "f_time (formData ?moved) = ''10:10''" "sduration service_4 = 60"
      by (simp_all add: service_4_def)
    ultimately show ?thesis
      by (simp add: roomStatus_ops_def s2 isAvailable_ops_eq occupiedCount_ops_eq TOTAL_ROOMS_def)
  qed
  have b: "confirmShown (handleSubmit_ops ?moved False ''77'' ''BK007'')"
    using C4_unchanged_edit_bypasses_room_check
            [where st = ?moved and s = service_4 and c = False and i = "''77''" and k = "''BK007''"]
          s2 c2 f2
    by blast
  show ?thesis
    using edit_unchanged_selected h n edit_unchanged_full a b by simp
qed

subsection \<open>C5: touching intervals do not overlap\<close>

text \<open>
  Claim C5. Two intervals conflict exactly when \<open>max aStart bStart < min aEnd bEnd\<close>
  over their half-open forms; bookings of which one ends when the other starts do not
  overlap, and neither adds to the occupancy count of the other.

  For a booking \<open>b\<close> that the room check does not leave out for its date, its status or
  for being edited, and whose start parses to \<open>bs\<close>, against a window that starts at
  \<open>cs\<close> and lasts \<open>m\<close> minutes: \<open>b\<close> adds one to the count exactly when
  \<open>max cs bs < min (cs + m) (bs + duration b)\<close>, and adds nothing when it ends at \<open>cs\<close>
  or starts at \<open>cs + m\<close>.
\<close>

theorem C5_half_open_overlap:
  assumes "timeToMinutes t = Some cs" and "timeToMinutes (time b) = Some bs"
      and "date b = f_date (formData st)" and "status b \<noteq> CANCELLED"
      and "\<not> (isEditing st \<and> currentId st = Some (bid b))"
  shows "occupiedCount (getRoomAvailability (st\<lparr>bookings := pre @ b # post\<rparr>) t m)
         = occupiedCount (getRoomAvailability (st\<lparr>bookings := pre @ post\<rparr>) t m)
           + (if max cs bs < min (cs + m) (bs + duration b) then 1 else 0)
         \<and> (bs + duration b = cs \<or> cs + m = bs \<longrightarrow>
              occupiedCount (getRoomAvailability (st\<lparr>bookings := pre @ b # post\<rparr>) t m)
              = occupiedCount (getRoomAvailability (st\<lparr>bookings := pre @ post\<rparr>) t m))"
  by (auto simp add: occupied_insert counted_parsed [OF assms])

text \<open>
  The theorem at 10:00 to 11:00 against 11:00 to 12:00, both ways round (count 0), and at
  two equal intervals (count 1).
\<close>

theorem C5_half_open_overlap_witness:
  "timeToMinutes ''11:00'' = Some 660 \<and> timeToMinutes ''10:00'' = Some 600
   \<and> occupiedCount (getRoomAvailability
        (ex_page [ex_booking ''1'' ''10:00'' 60 CONFIRMED] (ex_form ''4'' ''11:00'' None)) ''11:00'' 60) = 0
   \<and> occupiedCount (getRoomAvailability
        (ex_page [ex_booking ''2'' ''11:00'' 60 CONFIRMED] (ex_form ''4'' ''10:00'' None)) ''10:00'' 60) = 0
   \<and> occupiedCount (getRoomAvailability
        (ex_page [ex_booking ''1'' ''10:00'' 60 CONFIRMED] (ex_form ''4'' ''10:00'' None)) ''10:00'' 60) = 1"
  using C5_half_open_overlap [where t = "''11:00''" and cs = 660 and bs = 600
          and b = "ex_booking ''1'' ''10:00'' 60 CONFIRMED"
          and st = "ex_page [] (ex_form ''4'' ''11:00'' None)" and pre = "[]" and post = "[]" and m = 60]
        C5_half_open_overlap [where t = "''10:00''" and cs = 600 and bs = 660
          and b = "ex_booking ''2'' ''11:00'' 60 CONFIRMED"
          and st = "ex_page [] (ex_form ''4'' ''10:00'' None)" and pre = "[]" and post = "[]" and m = 60]
        C5_half_open_overlap [where t = "''10:00''" and cs = 600 and bs = 600
          and b = "ex_booking ''1'' ''10:00'' 60 CONFIRMED"
          and st = "ex_page [] (ex_form ''4'' ''10:00'' None)" and pre = "[]" and post = "[]" and m = 60]
  by (simp add: t1000 t1100 occupiedCount_eq ex_defs)

subsection \<open>C6: the next free slot\<close>



subsection \<open>C7: not enough staff\<close>

text \<open>
  Claim C7. For a submission with a service \<open>s\<close> that resolves: if the number of
  non-empty selected staff ids is below \<open>staffCount s\<close>, the submission is rejected,
  neither callback is called and the collection is unchanged; if the number is at least
  \<open>staffCount s\<close>, this check passes.

  The ids that the source counts are those that \<^verbatim>\<open>validStaffIds\<close> keeps: not empty,
  and not empty after \<^verbatim>\<open>trim\<close>. They are the non-empty ids whenever no selected id
  consists of white space only, and never more than the non-empty ids, so the rejection
  holds for the count of non-empty ids as well. A submission that passes the check calls
  a callback unless the operator declined the room warning before.
\<close>

theorem C7_staff_sufficiency:
  assumes "selectedService st = Some s"
  shows "(int (length (validStaffIdsOf (formData st))) < staffCount s \<longrightarrow>
            submittedBooking (handleSubmit st c i k) = None
            \<and> dispatchCallback prev (effect (handleSubmit st c i k)) resp = prev
            \<and> modalOpenAfter (handleSubmit st c i k) = isModalOpen st
            \<and> effect (handleSubmit st c i k)
                = (if isFull (roomStatus st) \<and> \<not> c then OverbookDeclined
                   else AlertNotEnoughStaff (staffCount s)))
       \<and> (int (length (filter (\<lambda>x. x \<noteq> []) (selectedStaffIds (formData st)))) < staffCount s \<longrightarrow>
            submittedBooking (handleSubmit st c i k) = None)
       \<and> (staffCount s \<le> int (length (validStaffIdsOf (formData st))) \<longrightarrow>
            effect (handleSubmit st c i k) \<noteq> AlertNotEnoughStaff n
            \<and> (isFull (roomStatus st) \<and> \<not> c \<or> submittedBooking (handleSubmit st c i k) \<noteq> None))
       \<and> ((\<forall>x \<in> set (selectedStaffIds (formData st)). x = [] \<or> trim x \<noteq> []) \<longrightarrow>
            validStaffIdsOf (formData st) = filter (\<lambda>x. x \<noteq> []) (selectedStaffIds (formData st)))"
proof -
  have low: "submittedBooking (handleSubmit st c i k) = None
            \<and> modalOpenAfter (handleSubmit st c i k) = isModalOpen st
            \<and> effect (handleSubmit st c i k)
                = (if isFull (roomStatus st) \<and> \<not> c then OverbookDeclined
                   else AlertNotEnoughStaff (staffCount s))"
    if "int (length (validStaffIdsOf (formData st))) < staffCount s"
    using assms that
    by (simp add: handleSubmit_def selectedService_find submittedBooking_def Let_def)
  have lit: "int (length (validStaffIdsOf (formData st))) < staffCount s"
    if "int (length (filter (\<lambda>x. x \<noteq> []) (selectedStaffIds (formData st)))) < staffCount s"
    using that valid_le_nonempty [of "formData st"] by linarith
  have high: "effect (handleSubmit st c i k) \<noteq> AlertNotEnoughStaff n
            \<and> (isFull (roomStatus st) \<and> \<not> c \<or> submittedBooking (handleSubmit st c i k) \<noteq> None)"
    if "staffCount s \<le> int (length (validStaffIdsOf (formData st)))"
    using assms that
    by (auto simp add: handleSubmit_def selectedService_find submittedBooking_def Let_def
             split: option.splits)
  have same: "validStaffIdsOf (formData st) = filter (\<lambda>x. x \<noteq> []) (selectedStaffIds (formData st))"
    if "\<forall>x \<in> set (selectedStaffIds (formData st)). x = [] \<or> trim x \<noteq> []"
    unfolding validStaffIdsOf_def using that by (intro filter_cong) auto
  show ?thesis
    using low lit high same dispatch_no_callback [of "handleSubmit st c i k" prev resp]
    by blast
qed

text \<open>
  The theorem at a form whose only staff slot is empty (alert, collection unchanged
  whatever the store would answer) and at a form with one staff id (a callback is
  called), for a service that needs one.
\<close>

theorem C7_staff_sufficiency_witness:
  "selectedService (ex_page [] ((ex_form ''4'' ''10:00'' None)\<lparr>selectedStaffIds := [[]]\<rparr>))
     = Some service_4
   \<and> effect (handleSubmit (ex_page [] ((ex_form ''4'' ''10:00'' None)\<lparr>selectedStaffIds := [[]]\<rparr>))
                           True ''77'' ''BK001'') = AlertNotEnoughStaff 1
   \<and> dispatchCallback five_at_ten
        (effect (handleSubmit (ex_page [] ((ex_form ''4'' ''10:00'' None)\<lparr>selectedStaffIds := [[]]\<rparr>))
                              True ''77'' ''BK001'')) (Some ex_row, None) = five_at_ten
   \<and> submittedBooking (handleSubmit (ex_page [] (ex_form ''4'' ''10:00'' None)) True ''77'' ''BK001'')
       \<noteq> None"
proof -
  have s1: "selectedService (ex_page [] ((ex_form ''4'' ''10:00'' None)\<lparr>selectedStaffIds := [[]]\<rparr>))
            = Some service_4"
    by (simp add: selectedService_def ex_defs)
  have h1: "int (length (validStaffIdsOf (formData
               (ex_page [] ((ex_form ''4'' ''10:00'' None)\<lparr>selectedStaffIds := [[]]\<rparr>)))))
             < staffCount service_4"
    by (simp add: validStaffIdsOf_def ex_defs)
  have h2: "staffCount service_4
             \<le> int (length (validStaffIdsOf (formData (ex_page [] (ex_form ''4'' ''10:00'' None)))))"
    by (simp add: ex_page_def ex_valid_staff service_4_def)
  have nf: "\<not> isFull (roomStatus (ex_page [] (ex_form ''4'' ''10:00'' None)))"
    by (simp add: roomStatus_def selectedService_def isAvailable_eq occupiedCount_eq
                  TOTAL_ROOMS_def ex_defs)
  have a0: "effect (handleSubmit (ex_page [] ((ex_form ''4'' ''10:00'' None)\<lparr>selectedStaffIds := [[]]\<rparr>))
                           True ''77'' ''BK001'')
            = (if isFull (roomStatus (ex_page [] ((ex_form ''4'' ''10:00'' None)\<lparr>selectedStaffIds := [[]]\<rparr>)))
                  \<and> \<not> True
               then OverbookDeclined else AlertNotEnoughStaff (staffCount service_4))"
     and b: "dispatchCallback five_at_ten
        (effect (handleSubmit (ex_page [] ((ex_form ''4'' ''10:00'' None)\<lparr>selectedStaffIds := [[]]\<rparr>))
                              True ''77'' ''BK001'')) (Some ex_row, None) = five_at_ten"
    using C7_staff_sufficiency [OF s1, where c = True and i = "''77''" and k = "''BK001''"
            and prev = five_at_ten and resp = "(Some ex_row, None)" and n = 1] h1
    by blast+
  have a: "effect (handleSubmit (ex_page [] ((ex_form ''4'' ''10:00'' None)\<lparr>selectedStaffIds := [[]]\<rparr>))
                           True ''77'' ''BK001'') = AlertNotEnoughStaff 1"
    using a0 by (simp add: service_4_def)
  have c: "submittedBooking (handleSubmit (ex_page [] (ex_form ''4'' ''10:00'' None)) True ''77'' ''BK001'')
           \<noteq> None"
    using C7_staff_sufficiency [OF ex_selected_4 [of "[]" "''10:00''" None], where c = True
            and i = "''77''" and k = "''BK001''" and prev = five_at_ten
            and resp = "(Some ex_row, None)" and n = 1] h2 nf
    by simp
  show ?thesis
    using s1 a b c by simp
qed

subsection \<open>C8: the collection after a write\<close>

text \<open>
  Claim C8. When the write to the store fails, the collection is unchanged; when it
  succeeds, a create prepends the new booking and an update replaces exactly the record
  with the id of the updated booking.

  On the source a successful create appends: the record that the store returns is
  converted by \<open>mapped\<close> and put at the end of the collection (and the collection is
  unchanged when the store returns neither an error nor a record). The rest is as
  claimed.
\<close>

theorem C8_write_then_reflect:
  "fst (handleAddBooking prev nb (d, Some msg)) = prev
   \<and> fst (handleUpdateBooking prev ub (Some msg)) = prev
   \<and> handleAddBooking prev nb (Some row, None) = (prev @ [mapped row], None)
   \<and> handleAddBooking prev nb (None, None) = (prev, None)
   \<and> length (fst (handleUpdateBooking prev ub None)) = length prev
   \<and> (\<forall>j < length prev.
         fst (handleUpdateBooking prev ub None) ! j
         = (if bid (prev ! j) = bid ub then ub else prev ! j))"
  by (simp add: handleAddBooking_def handleUpdateBooking_def)

text \<open>
  The theorem at the five bookings: a create puts the new record last, an update of
  booking 4 replaces the record at index 3 and leaves the one at index 0 alone.
\<close>

theorem C8_write_then_reflect_witness:
  "fst (handleAddBooking five_at_ten (mapped ex_row) (Some ex_row, None))
     = five_at_ten @ [mapped ex_row]
   \<and> (3::nat) < length five_at_ten
   \<and> bid (five_at_ten ! 3) = bid (ex_booking ''4'' ''12:00'' 90 COMPLETED)
   \<and> fst (handleUpdateBooking five_at_ten (ex_booking ''4'' ''12:00'' 90 COMPLETED) None) ! 3
       = ex_booking ''4'' ''12:00'' 90 COMPLETED
   \<and> fst (handleUpdateBooking five_at_ten (ex_booking ''4'' ''12:00'' 90 COMPLETED) None) ! 0
       = five_at_ten ! 0"
proof -
  have l: "(3::nat) < length five_at_ten" "(0::nat) < length five_at_ten"
    by (simp_all add: five_at_ten_def)
  have i: "bid (five_at_ten ! 3) = bid (ex_booking ''4'' ''12:00'' 90 COMPLETED)"
          "bid (five_at_ten ! 0) \<noteq> bid (ex_booking ''4'' ''12:00'' 90 COMPLETED)"
    by (simp_all add: five_at_ten_def ex_booking_def)
  note T = C8_write_then_reflect [where prev = five_at_ten and nb = "mapped ex_row"
             and row = ex_row and ub = "ex_booking ''4'' ''12:00'' 90 COMPLETED"]
  have a: "fst (handleAddBooking five_at_ten (mapped ex_row) (Some ex_row, None))
           = five_at_ten @ [mapped ex_row]"
    using T by simp
  have b: "fst (handleUpdateBooking five_at_ten (ex_booking ''4'' ''12:00'' 90 COMPLETED) None) ! 3
           = ex_booking ''4'' ''12:00'' 90 COMPLETED"
    using T l(1) i(1) by simp
  have c: "fst (handleUpdateBooking five_at_ten (ex_booking ''4'' ''12:00'' 90 COMPLETED) None) ! 0
           = five_at_ten ! 0"
    using T l(2) i(2) by simp
  show ?thesis using a b c l(1) i(1) by simp
qed

text \<open>
  Against the claim as stated: after a successful create on a collection of one booking
  the new record is second, not first.
\<close>

theorem C8_counterexample:
  "fst (handleAddBooking [ex_booking ''1'' ''10:00'' 60 CONFIRMED] (mapped ex_row) (Some ex_row, None))
     = [ex_booking ''1'' ''10:00'' 60 CONFIRMED, mapped ex_row]
   \<and> fst (handleAddBooking [ex_booking ''1'' ''10:00'' 60 CONFIRMED] (mapped ex_row) (Some ex_row, None))
     \<noteq> [mapped ex_row, ex_booking ''1'' ''10:00'' 60 CONFIRMED]"
  by (simp add: handleAddBooking_def mapped_def ex_row_def ex_booking_def)

subsection \<open>C9: more bookings, no more rooms\<close>

text \<open>
  Claim C9. Adding a booking to the collection never lowers \<open>occupiedCount\<close> and never
  turns an unavailable window into an available one; this holds for any added booking,
  anywhere in the collection. An added booking that is not cancelled, is on the date, is
  not the one being edited and meets the window raises the count by exactly one.
\<close>

theorem C9_monotonic:
  "occupiedCount (getRoomAvailability (st\<lparr>bookings := pre @ post\<rparr>) t m)
     \<le> occupiedCount (getRoomAvailability (st\<lparr>bookings := pre @ b # post\<rparr>) t m)
   \<and> (\<not> isAvailable (getRoomAvailability (st\<lparr>bookings := pre @ post\<rparr>) t m) \<longrightarrow>
        \<not> isAvailable (getRoomAvailability (st\<lparr>bookings := pre @ b # post\<rparr>) t m))
   \<and> (status b \<noteq> CANCELLED \<and> date b = f_date (formData st)
        \<and> \<not> (isEditing st \<and> currentId st = Some (bid b))
        \<and> halfOpen (time b) (duration b) \<inter> halfOpen t m \<noteq> {} \<longrightarrow>
        occupiedCount (getRoomAvailability (st\<lparr>bookings := pre @ b # post\<rparr>) t m)
        = occupiedCount (getRoomAvailability (st\<lparr>bookings := pre @ post\<rparr>) t m) + 1)"
  by (auto simp add: isAvailable_eq occupied_insert counted_def)

text \<open>
  The theorem at the five bookings at 10:00, which leave no room, with a sixth booking
  added at 10:30 and at 10:00.
\<close>

theorem C9_monotonic_witness:
  "\<not> isAvailable (getRoomAvailability (ex_page five_at_ten (ex_form ''4'' ''10:00'' None)) ''10:00'' 60)
   \<and> \<not> isAvailable (getRoomAvailability
          (ex_page (ex_booking ''6'' ''10:30'' 60 PENDING # five_at_ten) (ex_form ''4'' ''10:00'' None))
          ''10:00'' 60)
   \<and> occupiedCount (getRoomAvailability
          (ex_page (ex_booking ''6'' ''10:00'' 60 PENDING # five_at_ten) (ex_form ''4'' ''10:00'' None))
          ''10:00'' 60) = 6"
  using C9_monotonic [where st = "ex_page [] (ex_form ''4'' ''10:00'' None)" and pre = "[]"
          and post = five_at_ten and b = "ex_booking ''6'' ''10:30'' 60 PENDING"
          and t = "''10:00''" and m = 60]
        C9_monotonic [where st = "ex_page [] (ex_form ''4'' ''10:00'' None)" and pre = "[]"
          and post = five_at_ten and b = "ex_booking ''6'' ''10:00'' 60 PENDING"
          and t = "''10:00''" and m = 60]
  by (simp add: isAvailable_eq occupiedCount_eq TOTAL_ROOMS_def)
     (simp add: counted_def ex_defs ho_eval)

subsection \<open>C10: the quick status change\<close>

text \<open>
  Claim C10. For a booking \<open>b\<close> of the collection and a status \<open>s\<close>, the quick status
  change passes to the update callback a booking equal to \<open>b\<close> in every field but the
  status, which is \<open>s\<close>; when the store accepts the update, only the record of \<open>b\<close> in
  the collection is replaced, and every other booking is unchanged.

  The ids of the collection are distinct, as the ids of the store are; \<open>j\<close> is the
  index of \<open>b\<close>.
\<close>

theorem C10_quick_status_change:
  assumes "distinct (map bid (bookings st))"
      and "j < length (bookings st)" and "bookings st ! j = b"
  shows "updateStatus st (bid b) s = Some (b\<lparr>status := s\<rparr>)
         \<and> (case updateStatus st (bid b) s of
               None \<Rightarrow> False
             | Some u \<Rightarrow>
                 status u = s \<and> bid u = bid b \<and> code u = code b
                 \<and> customerName u = customerName b \<and> customerPhone u = customerPhone b
                 \<and> serviceId u = serviceId b \<and> serviceName u = serviceName b
                 \<and> staffId u = staffId b \<and> staffIds u = staffIds b \<and> staffName u = staffName b
                 \<and> date u = date b \<and> time u = time b \<and> duration u = duration b
                 \<and> bnotes u = bnotes b \<and> totalAmount u = totalAmount b \<and> discount u = discount b)
         \<and> handleUpdateBooking (bookings st) (b\<lparr>status := s\<rparr>) None
             = ((bookings st)[j := b\<lparr>status := s\<rparr>], None)
         \<and> (\<forall>n < length (bookings st). n \<noteq> j \<longrightarrow>
               fst (handleUpdateBooking (bookings st) (b\<lparr>status := s\<rparr>) None) ! n = bookings st ! n)
         \<and> fst (handleUpdateBooking (bookings st) (b\<lparr>status := s\<rparr>) (Some msg)) = bookings st"
proof -
  have mem: "b \<in> set (bookings st)"
    using assms(2,3) by (auto simp add: in_set_conv_nth)
  have a: "updateStatus st (bid b) s = Some (b\<lparr>status := s\<rparr>)"
    by (simp add: updateStatus_def find_distinct_bid [OF assms(1) mem])
  have b: "handleUpdateBooking (bookings st) (b\<lparr>status := s\<rparr>) None
             = ((bookings st)[j := b\<lparr>status := s\<rparr>], None)"
    using map_replace_distinct [OF assms(1,2), of "b\<lparr>status := s\<rparr>"] assms(3)
    by (simp add: handleUpdateBooking_def)
  show ?thesis
    using a b by (simp add: handleUpdateBooking_def)
qed

text \<open>
  The theorem at the five bookings: booking 3 goes to InProgress, the other four stay
  as they are.
\<close>

theorem C10_quick_status_change_witness:
  "distinct (map bid five_at_ten) \<and> (2::nat) < length five_at_ten
   \<and> updateStatus (ex_page five_at_ten (ex_form ''4'' ''10:00'' None)) ''3'' IN_PROGRESS
       = Some (ex_booking ''3'' ''10:00'' 60 IN_PROGRESS)
   \<and> fst (handleUpdateBooking five_at_ten (ex_booking ''3'' ''10:00'' 60 IN_PROGRESS) None)
       = [ex_booking ''1'' ''10:00'' 60 CONFIRMED, ex_booking ''2'' ''10:00'' 60 CONFIRMED,
          ex_booking ''3'' ''10:00'' 60 IN_PROGRESS, ex_booking ''4'' ''10:00'' 60 CONFIRMED,
          ex_booking ''5'' ''10:00'' 60 CONFIRMED]"
proof -
  have d: "distinct (map bid (bookings (ex_page five_at_ten (ex_form ''4'' ''10:00'' None))))"
    by (simp add: ex_page_def five_at_ten_def ex_booking_def)
  have l: "2 < length (bookings (ex_page five_at_ten (ex_form ''4'' ''10:00'' None)))"
    by (simp add: ex_page_def five_at_ten_def)
  have e: "bookings (ex_page five_at_ten (ex_form ''4'' ''10:00'' None)) ! 2
           = ex_booking ''3'' ''10:00'' 60 CONFIRMED"
    by (simp add: ex_page_def five_at_ten_def)
  have u: "(ex_booking ''3'' ''10:00'' 60 CONFIRMED)\<lparr>status := IN_PROGRESS\<rparr>
           = ex_booking ''3'' ''10:00'' 60 IN_PROGRESS"
          "bid (ex_booking ''3'' ''10:00'' 60 CONFIRMED) = ''3''"
    by (simp_all add: ex_booking_def)
  show ?thesis
    using C10_quick_status_change [OF d l e, of IN_PROGRESS "''store down''"] d l
    by (simp add: u) (simp add: ex_page_def five_at_ten_def)
qed

end
